theory Spec2Isabelle
  imports Main "HOL-Library.Multiset" "HOL-Library.Word"
begin

section \<open>Thrown values\<close>

text \<open>
  A JavaScript \<^verbatim>\<open>throw\<close> (or a rejected promise) carries an arbitrary value. The
  handlers only ever ask one question of it, \<^verbatim>\<open>e instanceof Error\<close>, and read
  \<^verbatim>\<open>e.message\<close> when the answer is yes. \<open>ErrorInst m\<close> is an instance of
  \<^verbatim>\<open>Error\<close> (or of a subclass such as \<^verbatim>\<open>SyntaxError\<close>, \<^verbatim>\<open>TypeError\<close>) whose
  message is \<open>m\<close>; \<open>PlainValue d\<close> is any other thrown value, \<open>d\<close> describing it.
\<close>

datatype thrown = ErrorInst string | PlainValue string

section \<open>The connection cache (the two variants of the mongodb module)\<close>

text \<open>
  \<^verbatim>\<open>typeof mongoose\<close>: the connected client. The number tells instances apart.
\<close>

datatype handle = Mongoose nat

text \<open>
  A promise returned by \<^verbatim>\<open>mongoose.connect(...).then(m => m)\<close>. \<open>attempt\<close> is the
  index of the call of \<^verbatim>\<open>mongoose.connect\<close> that created it, \<open>settles\<close> is what an
  \<^verbatim>\<open>await\<close> of it yields: the handle, or the rejection value.
\<close>

datatype mpromise = Promise (attempt: nat) (settles: "thrown + handle")

record MongooseCache =
  conn :: "handle option"
  promise :: "mpromise option"

record connect_options =
  bufferCommands :: bool

text \<open>
  The driver: what the \<open>k\<close>-th call of \<^verbatim>\<open>mongoose.connect(uri, opts)\<close> of this module
  instance will settle to. The first argument of the call is \<^verbatim>\<open>MONGODB_URI!\<close>; the
  non-null assertion is erased at run time, so the argument is the optional string.
\<close>

type_synonym mongoose_connect = "nat \<Rightarrow> string option \<Rightarrow> thrown + handle"

text \<open>
  What the module sees when it is loaded: \<^verbatim>\<open>process.env.MONGODB_URI\<close> and
  \<^verbatim>\<open>global.mongoose\<close> (absent in a fresh process, present after a hot reload).
\<close>

record process =
  env_MONGODB_URI :: "string option"
  global_mongoose :: "MongooseCache option"

text \<open>
  The module instance: its constant \<^verbatim>\<open>MONGODB_URI\<close>, the object \<^verbatim>\<open>cached\<close> (which
  is also \<^verbatim>\<open>global.mongoose\<close> after the load: one object under two names), and the log
  of the calls of \<^verbatim>\<open>mongoose.connect\<close> made so far, with their arguments.
\<close>

record mongodb =
  MONGODB_URI :: "string option"
  cached :: MongooseCache
  connect_log :: "(string option \<times> connect_options) list"

text \<open>\<^verbatim>\<open>!MONGODB_URI\<close>: \<^verbatim>\<open>undefined\<close> and the empty string are falsy.\<close>

definition falsy_uri :: "string option \<Rightarrow> bool" where
  "falsy_uri u = (case u of None \<Rightarrow> True | Some v \<Rightarrow> v = [])"

definition missing_uri_message_000 :: string where
  "missing_uri_message_000 =
     ''Please define the MONGODB_URI environment variable inside .env.local''"

definition missing_uri_message_001 :: string where
  "missing_uri_message_001 =
     ''Please define the MONGODB_URI environment variable inside .env.local''"

text \<open>\<^verbatim>\<open>global.mongoose || { conn: null, promise: null }\<close>\<close>

definition initial_cached :: "process \<Rightarrow> MongooseCache" where
  "initial_cached p =
     (case global_mongoose p of
        Some c \<Rightarrow> c
      | None \<Rightarrow> \<lparr>conn = None, promise = None\<rparr>)"

text \<open>
  Module load of part_000 (lines 14 to 27): the check of the URI is a top-level statement,
  so the load itself throws when the variable is not set.
\<close>

definition load_000 :: "process \<Rightarrow> thrown + mongodb" where
  "load_000 p =
     (if falsy_uri (env_MONGODB_URI p) then Inl (ErrorInst missing_uri_message_000)
      else Inr \<lparr>MONGODB_URI = env_MONGODB_URI p, cached = initial_cached p,
                connect_log = []\<rparr>)"

text \<open>Module load of part_001 (lines 15 to 22): no check, the load cannot throw.\<close>

definition load_001 :: "process \<Rightarrow> thrown + mongodb" where
  "load_001 p =
     Inr \<lparr>MONGODB_URI = env_MONGODB_URI p, cached = initial_cached p, connect_log = []\<rparr>"

text \<open>
  \<^verbatim>\<open>cached.promise = mongoose.connect(MONGODB_URI!, { bufferCommands: false }).then(...)\<close>:
  one more call of the driver, logged, and its promise stored.
\<close>

definition start_connect :: "mongoose_connect \<Rightarrow> mongodb \<Rightarrow> mpromise \<times> mongodb" where
  "start_connect mc s =
     (let k = length (connect_log s);
          p = Promise k (mc k (MONGODB_URI s))
      in (p, s\<lparr>cached := (cached s)\<lparr>promise := Some p\<rparr>,
               connect_log := connect_log s @ [(MONGODB_URI s, \<lparr>bufferCommands = False\<rparr>)]\<rparr>))"

text \<open>
  The \<^verbatim>\<open>try { cached.conn = await cached.promise } catch (e) { cached.promise = null; throw e }\<close>
  block followed by \<^verbatim>\<open>return cached.conn\<close>.
\<close>

definition await_promise :: "mpromise \<Rightarrow> mongodb \<Rightarrow> (thrown + handle) \<times> mongodb" where
  "await_promise p s =
     (case settles p of
        Inr h \<Rightarrow> (Inr h, s\<lparr>cached := (cached s)\<lparr>conn := Some h\<rparr>\<rparr>)
      | Inl e \<Rightarrow> (Inl e, s\<lparr>cached := (cached s)\<lparr>promise := None\<rparr>\<rparr>))"

text \<open>\<^verbatim>\<open>connectDB\<close> of part_000 (lines 35 to 60).\<close>

definition connectDB_000 :: "mongoose_connect \<Rightarrow> mongodb \<Rightarrow> (thrown + handle) \<times> mongodb" where
  "connectDB_000 mc s =
     (case conn (cached s) of
        Some h \<Rightarrow> (Inr h, s)
      | None \<Rightarrow>
          (case promise (cached s) of
             Some p \<Rightarrow> await_promise p s
           | None \<Rightarrow> (let (p, s1) = start_connect mc s in await_promise p s1)))"

text \<open>\<^verbatim>\<open>connectDB\<close> of part_001 (lines 32 to 68): the URI is checked here.\<close>

definition connectDB_001 :: "mongoose_connect \<Rightarrow> mongodb \<Rightarrow> (thrown + handle) \<times> mongodb" where
  "connectDB_001 mc s =
     (case conn (cached s) of
        Some h \<Rightarrow> (Inr h, s)
      | None \<Rightarrow>
          (case promise (cached s) of
             Some p \<Rightarrow> await_promise p s
           | None \<Rightarrow>
               if falsy_uri (MONGODB_URI s) then (Inl (ErrorInst missing_uri_message_001), s)
               else (let (p, s1) = start_connect mc s in await_promise p s1)))"

text \<open>
  \<open>n\<close> calls of an acquire operation one after the other, each awaited before the next
  starts: the results in order, and the final state.
\<close>

fun calls :: "('s \<Rightarrow> 'r \<times> 's) \<Rightarrow> nat \<Rightarrow> 's \<Rightarrow> 'r list \<times> 's" where
  "calls f 0 s = ([], s)"
| "calls f (Suc n) s =
     (let (r, s1) = f s; (rs, s2) = calls f n s1 in (r # rs, s2))"

text \<open>
  A fresh process, the module state with an empty cache, and two drivers: one that accepts
  every attempt, one that refuses the first attempt and accepts the later ones.
\<close>

definition fresh_process :: "string option \<Rightarrow> process" where
  "fresh_process u = \<lparr>env_MONGODB_URI = u, global_mongoose = None\<rparr>"

definition empty_cache_state :: "string option \<Rightarrow> mongodb" where
  "empty_cache_state u =
     \<lparr>MONGODB_URI = u, cached = \<lparr>conn = None, promise = None\<rparr>, connect_log = []\<rparr>"

definition always_up :: mongoose_connect where
  "always_up k u = Inr (Mongoose k)"

definition down_then_up :: mongoose_connect where
  "down_then_up k u = (if k = 0 then Inl (ErrorInst ''ECONNREFUSED'') else Inr (Mongoose k))"

section \<open>\<^verbatim>\<open>JSON.parse\<close>\<close>

text \<open>
  The route handler calls the built-in \<^verbatim>\<open>JSON.parse\<close> on two form fields. It is
  modelled by a lexer and a pushdown recogniser for the JSON grammar. A JavaScript string
  is a sequence of UTF-16 code units; a unit is a \<open>nat\<close> here, since the escape
  with four hexadecimal digits reaches units that no 8-bit \<open>char\<close> holds. The text
  handed to the parser is a \<open>string\<close>. A number keeps the text of its token (its
  IEEE-754 value is not computed), and an object keeps its members in the order of the
  text, duplicates included.
\<close>

type_synonym ustring = "nat list"

definition units :: "string \<Rightarrow> ustring" where
  "units s = map of_char s"

datatype json =
    JNull
  | JBool bool
  | JNumber string
  | JString ustring
  | JArray "json list"
  | JObject "(ustring \<times> json) list"

datatype token =
    TLBracket | TRBracket | TLBrace | TRBrace | TComma | TColon
  | TScalar json
  | TString ustring

definition is_ws :: "char \<Rightarrow> bool" where
  "is_ws c = (c = CHR 0x20 \<or> c = CHR 0x09 \<or> c = CHR 0x0A \<or> c = CHR 0x0D)"

definition is_digit :: "char \<Rightarrow> bool" where
  "is_digit c = (48 \<le> (of_char c :: nat) \<and> (of_char c :: nat) \<le> 57)"

definition hex_value :: "char \<Rightarrow> nat option" where
  "hex_value c =
     (let n = (of_char c :: nat) in
      if 48 \<le> n \<and> n \<le> 57 then Some (n - 48)
      else if 65 \<le> n \<and> n \<le> 70 then Some (n - 55)
      else if 97 \<le> n \<and> n \<le> 102 then Some (n - 87)
      else None)"

definition hex4 :: "char \<Rightarrow> char \<Rightarrow> char \<Rightarrow> char \<Rightarrow> nat option" where
  "hex4 a b c d =
     (case (hex_value a, hex_value b, hex_value c, hex_value d) of
        (Some w, Some x, Some y, Some z) \<Rightarrow> Some (((w * 16 + x) * 16 + y) * 16 + z)
      | _ \<Rightarrow> None)"

text \<open>The one-character escapes: quote, backslash, slash, b, f, n, r, t.\<close>

definition simple_escape :: "char \<Rightarrow> nat option" where
  "simple_escape c =
     (if c = CHR 0x22 then Some 0x22
      else if c = CHR 0x5C then Some 0x5C
      else if c = CHR ''/'' then Some 0x2F
      else if c = CHR ''b'' then Some 0x08
      else if c = CHR ''f'' then Some 0x0C
      else if c = CHR ''n'' then Some 0x0A
      else if c = CHR ''r'' then Some 0x0D
      else if c = CHR ''t'' then Some 0x09
      else None)"

text \<open>
  The rest of a string token, after its opening quote: the units read so far (newest
  first), then the text. A control character must be escaped.
\<close>

fun lex_string :: "ustring \<Rightarrow> string \<Rightarrow> (ustring \<times> string) option" where
  "lex_string acc [] = None"
| "lex_string acc (c # cs) =
     (if c = CHR 0x22 then Some (rev acc, cs)
      else if c = CHR 0x5C then
        (case cs of
           [] \<Rightarrow> None
         | e # r \<Rightarrow>
             if e = CHR ''u'' then
               (case r of
                  a # b # x # d # r' \<Rightarrow>
                    (case hex4 a b x d of
                       None \<Rightarrow> None
                     | Some n \<Rightarrow> lex_string (n # acc) r')
                | _ \<Rightarrow> None)
             else
               (case simple_escape e of
                  None \<Rightarrow> None
                | Some n \<Rightarrow> lex_string (n # acc) r))
      else if (of_char c :: nat) < 0x20 then None
      else lex_string (of_char c # acc) cs)"

definition lex_digits :: "string \<Rightarrow> (string \<times> string) option" where
  "lex_digits cs =
     (if takeWhile is_digit cs = [] then None
      else Some (takeWhile is_digit cs, dropWhile is_digit cs))"

text \<open>The integer part: a single zero, or a digit from 1 to 9 and then any digits.\<close>

definition lex_int :: "string \<Rightarrow> (string \<times> string) option" where
  "lex_int cs =
     (case cs of
        [] \<Rightarrow> None
      | d # r \<Rightarrow>
          if d = CHR ''0'' then Some ([d], r)
          else if is_digit d then Some (d # takeWhile is_digit r, dropWhile is_digit r)
          else None)"

definition lex_frac :: "string \<Rightarrow> (string \<times> string) option" where
  "lex_frac cs =
     (case cs of
        [] \<Rightarrow> Some ([], cs)
      | d # r \<Rightarrow>
          if d = CHR ''.'' then
            (case lex_digits r of None \<Rightarrow> None | Some (ds, r') \<Rightarrow> Some (d # ds, r'))
          else Some ([], cs))"

definition lex_exp :: "string \<Rightarrow> (string \<times> string) option" where
  "lex_exp cs =
     (case cs of
        [] \<Rightarrow> Some ([], cs)
      | e # r \<Rightarrow>
          if e = CHR ''e'' \<or> e = CHR ''E'' then
            (case r of
               [] \<Rightarrow> None
             | g # r' \<Rightarrow>
                 if g = CHR ''+'' \<or> g = CHR ''-'' then
                   (case lex_digits r' of
                      None \<Rightarrow> None
                    | Some (ds, r'') \<Rightarrow> Some (e # g # ds, r''))
                 else
                   (case lex_digits r of
                      None \<Rightarrow> None
                    | Some (ds, r'') \<Rightarrow> Some (e # ds, r'')))
          else Some ([], cs))"

definition lex_number :: "string \<Rightarrow> (string \<times> string) option" where
  "lex_number cs =
     (let (sign, r0) = (case cs of
                          [] \<Rightarrow> ([], cs)
                        | c # r \<Rightarrow> if c = CHR ''-'' then ([c], r) else ([], cs))
      in case lex_int r0 of
           None \<Rightarrow> None
         | Some (i, r1) \<Rightarrow>
             (case lex_frac r1 of
                None \<Rightarrow> None
              | Some (f, r2) \<Rightarrow>
                  (case lex_exp r2 of
                     None \<Rightarrow> None
                   | Some (x, r3) \<Rightarrow> Some (sign @ i @ f @ x, r3))))"

fun strip_prefix :: "string \<Rightarrow> string \<Rightarrow> string option" where
  "strip_prefix [] cs = Some cs"
| "strip_prefix (p # ps) [] = None"
| "strip_prefix (p # ps) (c # cs) = (if p = c then strip_prefix ps cs else None)"

definition lex_keyword :: "string \<Rightarrow> (json \<times> string) option" where
  "lex_keyword cs =
     (case strip_prefix ''null'' cs of
        Some r \<Rightarrow> Some (JNull, r)
      | None \<Rightarrow>
          (case strip_prefix ''true'' cs of
             Some r \<Rightarrow> Some (JBool True, r)
           | None \<Rightarrow>
               (case strip_prefix ''false'' cs of
                  Some r \<Rightarrow> Some (JBool False, r)
                | None \<Rightarrow> None)))"

text \<open>Every token takes at least one character, which is why the lexer terminates.\<close>

lemma lex_string_shorter: "lex_string acc cs = Some (u, r) \<Longrightarrow> length r < length cs"
proof (induction acc cs rule: lex_string.induct)
  case (1 acc)
  then show ?case by simp
next
  case (2 acc c cs)
  from "2.prems" show ?case
    apply (simp split: if_splits list.splits option.splits)
    using "2.IH"(1) apply force
    using "2.IH"(2) apply force
    using "2.IH"(3) apply force
    done
qed

lemma lex_digits_shorter: "lex_digits cs = Some (ds, r) \<Longrightarrow> length r \<le> length cs"
  by (auto simp: lex_digits_def length_dropWhile_le split: if_splits)

lemma lex_int_shorter: "lex_int cs = Some (ds, r) \<Longrightarrow> length r < length cs"
  by (auto simp: lex_int_def length_dropWhile_le less_Suc_eq_le split: if_splits list.splits)

lemma lex_frac_shorter: "lex_frac cs = Some (ds, r) \<Longrightarrow> length r \<le> length cs"
  by (auto simp: lex_frac_def split: if_splits list.splits option.splits
      dest!: lex_digits_shorter)

lemma lex_exp_shorter: "lex_exp cs = Some (ds, r) \<Longrightarrow> length r \<le> length cs"
  by (auto simp: lex_exp_def split: if_splits list.splits option.splits
      dest!: lex_digits_shorter)

lemma lex_number_shorter: "lex_number cs = Some (t, r) \<Longrightarrow> length r < length cs"
  by (auto simp: lex_number_def Let_def split: if_splits list.splits option.splits prod.splits
      dest!: lex_int_shorter lex_frac_shorter lex_exp_shorter)

lemma strip_prefix_shorter:
  "strip_prefix ps cs = Some r \<Longrightarrow> length r + length ps = length cs"
  by (induction ps cs rule: strip_prefix.induct) (auto split: if_splits)

lemma lex_keyword_shorter: "lex_keyword cs = Some (v, r) \<Longrightarrow> length r < length cs"
  by (auto simp: lex_keyword_def split: option.splits dest!: strip_prefix_shorter)

lemma lex_string_rest: "lex_string acc cs = Some x \<Longrightarrow> length (snd x) \<le> length cs"
  by (cases x) (auto dest: lex_string_shorter)

lemma lex_number_rest: "lex_number (c # cs) = Some x \<Longrightarrow> length (snd x) \<le> length cs"
  by (cases x) (auto dest: lex_number_shorter)

lemma lex_keyword_rest: "lex_keyword (c # cs) = Some x \<Longrightarrow> length (snd x) \<le> length cs"
  by (cases x) (auto dest: lex_keyword_shorter)

text \<open>The lexer: the tokens read so far (newest first), then the text.\<close>

function lex :: "token list \<Rightarrow> string \<Rightarrow> token list option" where
  "lex ts [] = Some (rev ts)"
| "lex ts (c # cs) =
     (if is_ws c then lex ts cs
      else if c = CHR ''['' then lex (TLBracket # ts) cs
      else if c = CHR '']'' then lex (TRBracket # ts) cs
      else if c = CHR 0x7B then lex (TLBrace # ts) cs
      else if c = CHR 0x7D then lex (TRBrace # ts) cs
      else if c = CHR '','' then lex (TComma # ts) cs
      else if c = CHR '':'' then lex (TColon # ts) cs
      else if c = CHR 0x22 then
        (case lex_string [] cs of
           None \<Rightarrow> None
         | Some (u, r) \<Rightarrow> lex (TString u # ts) r)
      else if c = CHR ''-'' \<or> is_digit c then
        (case lex_number (c # cs) of
           None \<Rightarrow> None
         | Some (n, r) \<Rightarrow> lex (TScalar (JNumber n) # ts) r)
      else
        (case lex_keyword (c # cs) of
           None \<Rightarrow> None
         | Some (v, r) \<Rightarrow> lex (TScalar v # ts) r))"
  by pat_completeness auto
termination
  apply (relation "measure (\<lambda>(ts, cs). length cs)")
            apply (simp_all add: less_Suc_eq_le)
    apply (drule lex_string_rest, force)
   apply (drule lex_number_rest, force)
  apply (drule lex_keyword_rest, force)
  done

text \<open>
  The recogniser reads one token at a time. \<open>pmode\<close> says what may come next and holds
  the container being filled; the stack holds the containers that wait for the value
  being read.
\<close>

datatype frame =
    ArrayF "json list"
  | ObjectF "(ustring \<times> json) list" ustring

datatype pmode =
    WantValue
  | ArrayStart
  | ArrayNext "json list"
  | ObjectStart
  | ObjectKey "(ustring \<times> json) list"
  | ObjectColon "(ustring \<times> json) list" ustring
  | ObjectNext "(ustring \<times> json) list"
  | Done json

fun complete :: "json \<Rightarrow> frame list \<Rightarrow> pmode \<times> frame list" where
  "complete v [] = (Done v, [])"
| "complete v (ArrayF es # st) = (ArrayNext (v # es), st)"
| "complete v (ObjectF ms k # st) = (ObjectNext ((k, v) # ms), st)"

fun start_value :: "frame list \<Rightarrow> token \<Rightarrow> (pmode \<times> frame list) option" where
  "start_value st (TScalar v) = Some (complete v st)"
| "start_value st (TString u) = Some (complete (JString u) st)"
| "start_value st TLBracket = Some (ArrayStart, st)"
| "start_value st TLBrace = Some (ObjectStart, st)"
| "start_value st _ = None"

fun pstep :: "pmode \<Rightarrow> frame list \<Rightarrow> token \<Rightarrow> (pmode \<times> frame list) option" where
  "pstep WantValue st t = start_value st t"
| "pstep ArrayStart st t =
     (if t = TRBracket then Some (complete (JArray []) st)
      else start_value (ArrayF [] # st) t)"
| "pstep (ArrayNext es) st t =
     (if t = TComma then Some (WantValue, ArrayF es # st)
      else if t = TRBracket then Some (complete (JArray (rev es)) st)
      else None)"
| "pstep ObjectStart st t =
     (case t of
        TRBrace \<Rightarrow> Some (complete (JObject []) st)
      | TString k \<Rightarrow> Some (ObjectColon [] k, st)
      | _ \<Rightarrow> None)"
| "pstep (ObjectKey ms) st t =
     (case t of TString k \<Rightarrow> Some (ObjectColon ms k, st) | _ \<Rightarrow> None)"
| "pstep (ObjectColon ms k) st t =
     (if t = TColon then Some (WantValue, ObjectF ms k # st) else None)"
| "pstep (ObjectNext ms) st t =
     (if t = TComma then Some (ObjectKey ms, st)
      else if t = TRBrace then Some (complete (JObject (rev ms)) st)
      else None)"
| "pstep (Done v) st t = None"

fun prun :: "pmode \<Rightarrow> frame list \<Rightarrow> token list \<Rightarrow> json option" where
  "prun m st [] = (case m of Done v \<Rightarrow> Some v | _ \<Rightarrow> None)"
| "prun m st (t # ts) =
     (case pstep m st t of
        None \<Rightarrow> None
      | Some (m', st') \<Rightarrow> prun m' st' ts)"

text \<open>\<open>None\<close> is the \<^verbatim>\<open>SyntaxError\<close> of the built-in.\<close>

definition parse_json_text :: "string \<Rightarrow> json option" where
  "parse_json_text txt =
     (case lex [] txt of
        None \<Rightarrow> None
      | Some ts \<Rightarrow> prun WantValue [] ts)"

section \<open>The event route\<close>

subsection \<open>The request and the values it carries\<close>

type_synonym bytes = "8 word list"

text \<open>A \<^verbatim>\<open>File\<close> of the form: its name and its content.\<close>

datatype js_file = File (file_name: string) (file_bytes: bytes)

text \<open>\<^verbatim>\<open>FormDataEntryValue\<close>: a text field or a file.\<close>

datatype entry = Text string | Upload js_file

type_synonym form_data = "(string \<times> entry) list"

text \<open>
  The request, as far as the handler reads it: what \<^verbatim>\<open>await req.formData()\<close> gives,
  the entries in order or the rejection when the body is not a form.
\<close>

datatype request = Request (formData: "thrown + form_data")

text \<open>\<^verbatim>\<open>formData.get(name)\<close>: the first entry of that name, or \<^verbatim>\<open>null\<close>.\<close>

definition formData_get :: "form_data \<Rightarrow> string \<Rightarrow> entry option" where
  "formData_get fd name = map_of fd name"

text \<open>The values an attribute of the event object can hold.\<close>

datatype jsvalue = VString string | VFile js_file | VJson json

definition entry_value :: "entry \<Rightarrow> jsvalue" where
  "entry_value e = (case e of Text s \<Rightarrow> VString s | Upload f \<Rightarrow> VFile f)"

type_synonym attributes = "string \<rightharpoonup> jsvalue"

text \<open>
  What an iterator can yield to \<^verbatim>\<open>Object.fromEntries\<close>: an array \<^verbatim>\<open>[key, value]\<close>
  whose key is a string, or a value that is not an object. What the built-in can be
  called on: \<^verbatim>\<open>null\<close> or \<^verbatim>\<open>undefined\<close>, a value without an iterator, or an
  iterator with its items.
\<close>

datatype iter_item = EntryArray string entry | NotAnObject

datatype iterable = Nullish | NotIterable | Iterator "iter_item list"

text \<open>
  \<^verbatim>\<open>formData.entries()\<close>: an iterator over the entries of the form in order, each a
  pair of the name and the value.
\<close>

definition formData_entries :: "form_data \<Rightarrow> iterable" where
  "formData_entries fd = Iterator (map (\<lambda>(k, e). EntryArray k e) fd)"

text \<open>\<^verbatim>\<open>!file\<close>: \<^verbatim>\<open>null\<close> and the empty string are falsy, a \<^verbatim>\<open>File\<close> never is.\<close>

definition falsy_entry :: "entry option \<Rightarrow> bool" where
  "falsy_entry v =
     (case v of None \<Rightarrow> True | Some (Text s) \<Rightarrow> s = [] | Some (Upload f) \<Rightarrow> False)"

text \<open>
  \<^verbatim>\<open>JSON.parse\<close> converts its argument to a string first: \<^verbatim>\<open>null\<close> becomes
  the text \<^verbatim>\<open>null\<close>, a \<^verbatim>\<open>File\<close> becomes \<^verbatim>\<open>[object File]\<close>.
\<close>

definition ToString :: "entry option \<Rightarrow> string" where
  "ToString v =
     (case v of
        None \<Rightarrow> ''null''
      | Some (Text s) \<Rightarrow> s
      | Some (Upload f) \<Rightarrow> ''[object File]'')"

subsection \<open>The collaborators\<close>

record upload_options =
  resource_type :: string
  folder :: string

record upload_result =
  secure_url :: string

text \<open>
  Modelled from the spec: a stored event. The module \<^verbatim>\<open>@/database/event.model\<close> is
  not among the sources; the spec describes an event as the submitted attributes together
  with an implicit creation timestamp that the listing sorts by.
\<close>

record stored =
  attributes :: attributes
  createdAt :: nat

text \<open>
  Everything outside the handler that decides how a request goes:
  \<^item> \<open>connectDB\<close>, the function imported from \<^verbatim>\<open>@/lib/mongodb\<close>;
  \<^item> the texts of the engine's own exceptions: the \<^verbatim>\<open>SyntaxError\<close> of
    \<^verbatim>\<open>JSON.parse\<close> on a given text, and the \<^verbatim>\<open>TypeError\<close> of a given expression;
  \<^item> \<open>upload_stream\<close>, the two arguments \<^verbatim>\<open>(error, results)\<close> that the media
    service hands to the callback for a given buffer, each possibly \<^verbatim>\<open>undefined\<close>;
  \<^item> \<open>create_error\<close> and \<open>find_error\<close>, the failure of an insert of a given document
    and of the listing query, if any;
  \<^item> \<open>now\<close>, the time at which the insert happens.
\<close>

record env =
  connectDB :: "mongodb \<Rightarrow> (thrown + handle) \<times> mongodb"
  syntax_error_message :: "string \<Rightarrow> string"
  type_error_message :: "string \<Rightarrow> string"
  upload_stream :: "upload_options \<Rightarrow> bytes \<Rightarrow> thrown option \<times> upload_result option"
  create_error :: "attributes \<Rightarrow> thrown option"
  find_error :: "thrown option"
  now :: nat

text \<open>
  What the handlers change: the state of the mongodb module, the uploads sent to the
  media service, and the event collection.
\<close>

record world =
  db :: mongodb
  uploads :: "(upload_options \<times> bytes) list"
  events :: "stored list"

text \<open>
  Modelled from the spec: \<^verbatim>\<open>Event.create(doc)\<close>. The event model is not among the
  sources; the spec gives \<^verbatim>\<open>Handle.create(doc) -> StoredDoc\<close>, persisting the merged
  attribute set, and lets a database failure surface as an exception.
\<close>

definition Event_create :: "env \<Rightarrow> attributes \<Rightarrow> world \<Rightarrow> (thrown + stored) \<times> world" where
  "Event_create E doc w =
     (case create_error E doc of
        Some e \<Rightarrow> (Inl e, w)
      | None \<Rightarrow>
          (let s = \<lparr>attributes = doc, createdAt = now E\<rparr>
           in (Inr s, w\<lparr>events := events w @ [s]\<rparr>)))"

text \<open>
  Modelled from the spec: \<^verbatim>\<open>Event.find().sort({ createdAt: -1 })\<close>. The event model
  is not among the sources; the spec gives
  \<^verbatim>\<open>Handle.find().sort({field: -1}) -> sequence of StoredDoc\<close>, all records ordered by
  creation time, newest first.
\<close>

definition Event_find_sort :: "env \<Rightarrow> world \<Rightarrow> thrown + stored list" where
  "Event_find_sort E w =
     (case find_error E of
        Some e \<Rightarrow> Inl e
      | None \<Rightarrow> Inr (rev (sort_key createdAt (events w))))"

subsection \<open>Responses\<close>

text \<open>The object given to \<^verbatim>\<open>NextResponse.json\<close>, one constructor for each shape.\<close>

datatype body =
    Message string
  | MessageError string string
  | MessageEvent string stored
  | MessageEvents string "stored list"
  | MessageRawError string thrown

record response =
  status :: nat
  body :: body

subsection \<open>POST\<close>

text \<open>\<^verbatim>\<open>JSON.parse(formData.get(name) as string)\<close>; the cast is erased at run time.\<close>

definition JSON_parse :: "env \<Rightarrow> entry option \<Rightarrow> thrown + json" where
  "JSON_parse E v =
     (case parse_json_text (ToString v) of
        None \<Rightarrow> Inl (ErrorInst (syntax_error_message E (ToString v)))
      | Some j \<Rightarrow> Inr j)"

text \<open>
  \<^verbatim>\<open>Object.fromEntries(iterable)\<close>, after the algorithm of the language standard. The
  items are written into the object in order, so a later entry of the same name replaces
  an earlier one. An item that is not an object is a \<^verbatim>\<open>TypeError\<close>, and so is an
  argument that is \<^verbatim>\<open>null\<close>, \<^verbatim>\<open>undefined\<close> or not iterable.
\<close>

fun AddEntriesFromIterable :: "env \<Rightarrow> attributes \<Rightarrow> iter_item list \<Rightarrow> thrown + attributes" where
  "AddEntriesFromIterable E obj [] = Inr obj"
| "AddEntriesFromIterable E obj (EntryArray k v # items) =
     AddEntriesFromIterable E (obj(k \<mapsto> entry_value v)) items"
| "AddEntriesFromIterable E obj (NotAnObject # items) =
     Inl (ErrorInst (type_error_message E ''Object.fromEntries: iterator value''))"

definition Object_fromEntries :: "env \<Rightarrow> iterable \<Rightarrow> thrown + attributes" where
  "Object_fromEntries E it =
     (case it of
        Nullish \<Rightarrow> Inl (ErrorInst (type_error_message E ''Object.fromEntries: null''))
      | NotIterable \<Rightarrow> Inl (ErrorInst (type_error_message E ''Object.fromEntries: iterable''))
      | Iterator items \<Rightarrow> AddEntriesFromIterable E Map.empty items)"

text \<open>
  \<^verbatim>\<open>Buffer.from(await file.arrayBuffer())\<close>, \<open>file\<close> being truthy: a text field has
  no such method, the call is a \<^verbatim>\<open>TypeError\<close>.
\<close>

definition arrayBuffer :: "env \<Rightarrow> entry option \<Rightarrow> thrown + bytes" where
  "arrayBuffer E v =
     (case v of
        Some (Upload f) \<Rightarrow> Inr (file_bytes f)
      | _ \<Rightarrow> Inl (ErrorInst (type_error_message E ''file.arrayBuffer'')))"

text \<open>
  Lines 51 to 62: the promise around \<^verbatim>\<open>upload_stream\<close>. The callback rejects with a
  truthy \<open>error\<close> and resolves with \<open>results\<close> otherwise. The call is logged.
\<close>

definition upload :: "env \<Rightarrow> bytes \<Rightarrow> world \<Rightarrow> (thrown + upload_result option) \<times> world" where
  "upload E buffer w =
     (let opts = \<lparr>resource_type = ''image'', folder = ''DevEvent''\<rparr>;
          w1 = w\<lparr>uploads := uploads w @ [(opts, buffer)]\<rparr>
      in case upload_stream E opts buffer of
           (Some error, results) \<Rightarrow> (Inl error, w1)
         | (None, results) \<Rightarrow> (Inr results, w1))"

text \<open>
  Lines 64 to 75: the secure URL is read, the event object gets it as \<open>image\<close>, the
  document is the event object with \<open>tags\<close> and \<open>agenda\<close> replaced by the parsed
  values, and the created document is returned with status 201.
\<close>

definition persist ::
  "env \<Rightarrow> attributes \<Rightarrow> json \<Rightarrow> json \<Rightarrow> upload_result option \<Rightarrow> world
     \<Rightarrow> (thrown + response) \<times> world" where
  "persist E event tags agenda uploadResult w =
     (case uploadResult of
        None \<Rightarrow> (Inl (ErrorInst (type_error_message E ''uploadResult.secure_url'')), w)
      | Some r \<Rightarrow>
          (let event1 = event(''image'' \<mapsto> VString (secure_url r))
           in case Event_create E
                     (event1(''tags'' \<mapsto> VJson tags, ''agenda'' \<mapsto> VJson agenda)) w of
                (Inl e, w1) \<Rightarrow> (Inl e, w1)
              | (Inr createdEvent, w1) \<Rightarrow>
                  (Inr \<lparr>status = 201,
                        body = MessageEvent ''Event created successfully'' createdEvent\<rparr>, w1)))"

text \<open>
  Lines 24 to 75, after the connection: \<open>Inl\<close> is an exception that reaches the outer
  \<^verbatim>\<open>catch\<close>, \<open>Inr\<close> is a response returned from inside the \<^verbatim>\<open>try\<close>.
\<close>

definition POST_form :: "env \<Rightarrow> form_data \<Rightarrow> world \<Rightarrow> (thrown + response) \<times> world" where
  "POST_form E fd w =
     (case Object_fromEntries E (formData_entries fd) of
        Inl e \<Rightarrow> (Inr \<lparr>status = 400, body = Message ''Invalid JSON data format''\<rparr>, w)
      | Inr event \<Rightarrow>
          (let file = formData_get fd ''image'' in
           if falsy_entry file
           then (Inr \<lparr>status = 400, body = Message ''Image file is required''\<rparr>, w)
           else
             (case JSON_parse E (formData_get fd ''tags'') of
                Inl e \<Rightarrow> (Inl e, w)
              | Inr tags \<Rightarrow>
                  (case JSON_parse E (formData_get fd ''agenda'') of
                     Inl e \<Rightarrow> (Inl e, w)
                   | Inr agenda \<Rightarrow>
                       (case arrayBuffer E file of
                          Inl e \<Rightarrow> (Inl e, w)
                        | Inr buffer \<Rightarrow>
                            (case upload E buffer w of
                               (Inl e, w1) \<Rightarrow> (Inl e, w1)
                             | (Inr uploadResult, w1) \<Rightarrow>
                                 persist E event tags agenda uploadResult w1))))))"

text \<open>The body of the \<^verbatim>\<open>try\<close> of \<^verbatim>\<open>POST\<close>, lines 22 to 75.\<close>

definition POST_try :: "env \<Rightarrow> request \<Rightarrow> world \<Rightarrow> (thrown + response) \<times> world" where
  "POST_try E req w =
     (case connectDB E (db w) of
        (Inl e, d) \<Rightarrow> (Inl e, w\<lparr>db := d\<rparr>)
      | (Inr h, d) \<Rightarrow>
          (case formData req of
             Inl e \<Rightarrow> (Inl e, w\<lparr>db := d\<rparr>)
           | Inr fd \<Rightarrow> POST_form E fd (w\<lparr>db := d\<rparr>)))"

text \<open>\<^verbatim>\<open>e instanceof Error ? e.message : "Unknown"\<close>\<close>

definition error_text :: "thrown \<Rightarrow> string" where
  "error_text e = (case e of ErrorInst m \<Rightarrow> m | PlainValue d \<Rightarrow> ''Unknown'')"

text \<open>
  \<^verbatim>\<open>POST\<close>, lines 20 to 86: the outer \<^verbatim>\<open>catch\<close> turns every exception of the body
  into the 500 response (it also logs the exception to the console, which no response
  depends on).
\<close>

definition POST :: "env \<Rightarrow> request \<Rightarrow> world \<Rightarrow> response \<times> world" where
  "POST E req w =
     (case POST_try E req w of
        (Inr r, w1) \<Rightarrow> (r, w1)
      | (Inl e, w1) \<Rightarrow>
          (\<lparr>status = 500, body = MessageError ''Event Creation Failed'' (error_text e)\<rparr>, w1))"

subsection \<open>GET\<close>

text \<open>The body of the \<^verbatim>\<open>try\<close> of \<^verbatim>\<open>GET\<close>, lines 95 to 102.\<close>

definition GET_try :: "env \<Rightarrow> world \<Rightarrow> (thrown + response) \<times> world" where
  "GET_try E w =
     (case connectDB E (db w) of
        (Inl e, d) \<Rightarrow> (Inl e, w\<lparr>db := d\<rparr>)
      | (Inr h, d) \<Rightarrow>
          (case Event_find_sort E (w\<lparr>db := d\<rparr>) of
             Inl e \<Rightarrow> (Inl e, w\<lparr>db := d\<rparr>)
           | Inr evs \<Rightarrow>
               (Inr \<lparr>status = 200, body = MessageEvents ''Events fetched successfully'' evs\<rparr>,
                w\<lparr>db := d\<rparr>)))"

text \<open>\<^verbatim>\<open>GET\<close>, lines 93 to 109: the \<^verbatim>\<open>catch\<close> puts the caught value itself in the body.\<close>

definition GET :: "env \<Rightarrow> world \<Rightarrow> response \<times> world" where
  "GET E w =
     (case GET_try E w of
        (Inr r, w1) \<Rightarrow> (r, w1)
      | (Inl e, w1) \<Rightarrow>
          (\<lparr>status = 500, body = MessageRawError ''Event fetching failed'' e\<rparr>, w1))"

subsection \<open>Concrete requests and collaborators\<close>

definition dev_uri :: "string option" where
  "dev_uri = Some ''mongodb://localhost:27017/devevent''"

definition connected_state :: mongodb where
  "connected_state =
     \<lparr>MONGODB_URI = dev_uri,
      cached = \<lparr>conn = Some (Mongoose 0), promise = Some (Promise 0 (Inr (Mongoose 0)))\<rparr>,
      connect_log = [(dev_uri, \<lparr>bufferCommands = False\<rparr>)]\<rparr>"

definition poster :: js_file where
  "poster = File ''poster.png'' [0x89, 0x50, 0x4E, 0x47]"

definition hosted :: upload_result where
  "hosted = \<lparr>secure_url = ''https://res.cloudinary.com/demo/image/upload/poster.png''\<rparr>"

text \<open>A service that is up: the database connects, the upload succeeds, the insert too.\<close>

definition services_up :: env where
  "services_up =
     \<lparr>connectDB = connectDB_001 always_up,
      syntax_error_message = (\<lambda>t. ''Unexpected token in JSON''),
      type_error_message = (\<lambda>x. x @ '' is not a function''),
      upload_stream = (\<lambda>opts buffer. (None, Some hosted)),
      create_error = (\<lambda>doc. None),
      find_error = None,
      now = 1700000000\<rparr>"

definition world0 :: world where
  "world0 = \<lparr>db = empty_cache_state dev_uri, uploads = [], events = []\<rparr>"

definition refused_state :: mongodb where
  "refused_state =
     \<lparr>MONGODB_URI = dev_uri, cached = \<lparr>conn = None, promise = None\<rparr>,
      connect_log = [(dev_uri, \<lparr>bufferCommands = False\<rparr>)]\<rparr>"

text \<open>The options of every upload, as the handler writes them.\<close>

definition image_options :: upload_options where
  "image_options = \<lparr>resource_type = ''image'', folder = ''DevEvent''\<rparr>"

text \<open>A collection of three events, stored out of order of their creation times.\<close>

definition world3 :: world where
  "world3 =
     \<lparr>db = empty_cache_state dev_uri, uploads = [],
      events = [\<lparr>attributes = [''title'' \<mapsto> VString ''Meetup''], createdAt = 20\<rparr>,
                \<lparr>attributes = [''title'' \<mapsto> VString ''Summit''], createdAt = 30\<rparr>,
                \<lparr>attributes = [''title'' \<mapsto> VString ''Hackday''], createdAt = 10\<rparr>]\<rparr>"

definition launch_form :: form_data where
  "launch_form =
     [(''title'', Text ''Launch''), (''image'', Upload poster),
      (''tags'', Text ''[\"a\",\"b\"]''), (''agenda'', Text ''[\"x\"]'')]"

definition no_tags_form :: form_data where
  "no_tags_form =
     [(''title'', Text ''Launch''), (''image'', Upload poster), (''agenda'', Text ''[\"x\"]'')]"

definition no_agenda_form :: form_data where
  "no_agenda_form =
     [(''title'', Text ''Launch''), (''image'', Upload poster),
      (''tags'', Text ''[\"a\",\"b\"]'')]"

text \<open>
  The services with a media service that rejects every upload: once with an instance of
  \<^verbatim>\<open>Error\<close>, once with a plain object that describes the failure.
\<close>

definition upload_times_out :: env where
  "upload_times_out =
     services_up\<lparr>upload_stream :=
       \<lambda>opts buffer. (Some (ErrorInst ''Upload timed out''), None)\<rparr>"

definition upload_rejects_plain :: env where
  "upload_rejects_plain =
     services_up\<lparr>upload_stream :=
       \<lambda>opts buffer.
         (Some (PlainValue ''{ message: Invalid image file, http_code: 400 }''), None)\<rparr>"

text \<open>The services with the database down at the first attempt, and with a failing query.\<close>

definition database_down :: env where
  "database_down = services_up\<lparr>connectDB := connectDB_001 down_then_up\<rparr>"

definition query_fails :: env where
  "query_fails = services_up\<lparr>find_error := Some (PlainValue ''cursor closed'')\<rparr>"

section \<open>Evaluating the collaborators and the parser on concrete inputs\<close>

lemma parse_not_json: "parse_json_text ''not json'' = None"
  by (simp add: parse_json_text_def is_ws_def is_digit_def lex_keyword_def)

lemma parse_null: "parse_json_text ''null'' = Some JNull"
  by (simp add: parse_json_text_def is_ws_def is_digit_def lex_keyword_def)

lemma parse_a_b:
  "parse_json_text ''[\"a\",\"b\"]'' =
     Some (JArray [JString (units ''a''), JString (units ''b'')])"
  by (simp add: parse_json_text_def is_ws_def is_digit_def units_def)

lemma parse_x: "parse_json_text ''[\"x\"]'' = Some (JArray [JString (units ''x'')])"
  by (simp add: parse_json_text_def is_ws_def is_digit_def units_def)

lemma parse_empty_array: "parse_json_text ''[]'' = Some (JArray [])"
  by (simp add: parse_json_text_def is_ws_def is_digit_def)

lemma connect_up:
  "connectDB_001 always_up (empty_cache_state dev_uri) = (Inr (Mongoose 0), connected_state)"
  by (simp add: connectDB_001_def always_up_def empty_cache_state_def dev_uri_def
      connected_state_def falsy_uri_def start_connect_def await_promise_def Let_def)

lemma connect_up_000:
  "connectDB_000 always_up (empty_cache_state dev_uri) = (Inr (Mongoose 0), connected_state)"
  by (simp add: connectDB_000_def always_up_def empty_cache_state_def dev_uri_def
      connected_state_def falsy_uri_def start_connect_def await_promise_def Let_def)

lemma refused_000:
  "connectDB_000 down_then_up (empty_cache_state dev_uri) =
     (Inl (ErrorInst ''ECONNREFUSED''), refused_state)"
  by (simp add: connectDB_000_def down_then_up_def empty_cache_state_def dev_uri_def
      refused_state_def start_connect_def await_promise_def Let_def)

lemma refused_001:
  "connectDB_001 down_then_up (empty_cache_state dev_uri) =
     (Inl (ErrorInst ''ECONNREFUSED''), refused_state)"
  by (simp add: connectDB_001_def down_then_up_def empty_cache_state_def dev_uri_def
      refused_state_def start_connect_def await_promise_def Let_def falsy_uri_def)

lemma services_up_upload:
  "upload_stream services_up image_options (file_bytes poster) = (None, Some hosted)"
  by (simp add: services_up_def)

lemma services_up_create: "\<forall>doc. create_error services_up doc = None"
  by (simp add: services_up_def)

lemma services_up_connect:
  "connectDB services_up (db world0) = (Inr (Mongoose 0), connected_state)"
  by (simp add: services_up_def world0_def connect_up)

section \<open>Properties of the connection cache\<close>

lemma connectDB_000_cached:
  "connectDB_000 mc s = (Inr h, s1) \<Longrightarrow> conn (cached s1) = Some h"
  by (auto simp: connectDB_000_def await_promise_def start_connect_def Let_def
      split: option.splits sum.splits)

lemma connectDB_001_cached:
  "connectDB_001 mc s = (Inr h, s1) \<Longrightarrow> conn (cached s1) = Some h"
  by (auto simp: connectDB_001_def await_promise_def start_connect_def Let_def
      split: option.splits sum.splits if_splits)

lemma calls_fixed:
  "f s = (r, s) \<Longrightarrow> calls f n s = (replicate n r, s)"
  by (induction n) simp_all

text \<open>
  C3. Once a call of \<open>connectDB\<close> has succeeded with handle \<open>h\<close>, any number of further
  calls, one after the other, all return \<open>h\<close> and leave the module state as it is: the
  cache is untouched and the log of connection attempts does not grow. This holds for
  both variants of the module.
\<close>

theorem connectDB_idempotent_after_success:
  "(connectDB_000 mc s = (Inr h, s1) \<longrightarrow>
      calls (connectDB_000 mc) n s1 = (replicate n (Inr h), s1)) \<and>
   (connectDB_001 mc s = (Inr h, s1) \<longrightarrow>
      calls (connectDB_001 mc) n s1 = (replicate n (Inr h), s1))"
proof (intro conjI impI)
  assume "connectDB_000 mc s = (Inr h, s1)"
  then have "conn (cached s1) = Some h" by (rule connectDB_000_cached)
  then have "connectDB_000 mc s1 = (Inr h, s1)" by (simp add: connectDB_000_def)
  then show "calls (connectDB_000 mc) n s1 = (replicate n (Inr h), s1)"
    by (rule calls_fixed)
next
  assume "connectDB_001 mc s = (Inr h, s1)"
  then have "conn (cached s1) = Some h" by (rule connectDB_001_cached)
  then have "connectDB_001 mc s1 = (Inr h, s1)" by (simp add: connectDB_001_def)
  then show "calls (connectDB_001 mc) n s1 = (replicate n (Inr h), s1)"
    by (rule calls_fixed)
qed

text \<open>
  C3, at a concrete input: from an empty cache with the driver up, the first call of either
  variant connects and caches handle 0; three more calls return handle 0 and the state,
  with its single logged attempt, stays the same.
\<close>

theorem connectDB_idempotent_after_success_witness:
  "connectDB_000 always_up (empty_cache_state dev_uri) = (Inr (Mongoose 0), connected_state) \<and>
   calls (connectDB_000 always_up) 3 connected_state =
     ([Inr (Mongoose 0), Inr (Mongoose 0), Inr (Mongoose 0)], connected_state) \<and>
   connectDB_001 always_up (empty_cache_state dev_uri) = (Inr (Mongoose 0), connected_state) \<and>
   calls (connectDB_001 always_up) 3 connected_state =
     ([Inr (Mongoose 0), Inr (Mongoose 0), Inr (Mongoose 0)], connected_state)"
  using connectDB_idempotent_after_success
    [of always_up "empty_cache_state dev_uri" "Mongoose 0" connected_state 3]
  by (simp add: connect_up connect_up_000 numeral_3_eq_3)

lemma fresh_attempt_000:
  "conn (cached s) = None \<Longrightarrow> promise (cached s) = None \<Longrightarrow>
   fst (connectDB_000 mc s) = mc (length (connect_log s)) (MONGODB_URI s) \<and>
   connect_log (snd (connectDB_000 mc s)) =
     connect_log s @ [(MONGODB_URI s, \<lparr>bufferCommands = False\<rparr>)]"
  by (auto simp: connectDB_000_def await_promise_def start_connect_def Let_def
      split: option.splits sum.splits)

text \<open>
  C2, as amended. The two variants check the URI at different moments. In part_000 the
  check is a statement of the module: when the variable is undefined or empty, loading the
  module throws the configuration error, and \<open>connectDB\<close> itself has no check: with
  nothing cached and nothing pending it calls \<^verbatim>\<open>mongoose.connect\<close> whatever the URI.
  In part_001 loading the module never throws; when the variable is undefined or empty, no
  handle is cached and no attempt is pending, every call of \<open>connectDB\<close> throws the
  configuration error and leaves the module state as it is, so the log of calls of
  \<^verbatim>\<open>mongoose.connect\<close> does not grow.
\<close>

theorem missing_uri_check:
  "(falsy_uri (env_MONGODB_URI p) \<longrightarrow> load_000 p = Inl (ErrorInst missing_uri_message_000)) \<and>
   (\<exists>s. load_001 p = Inr s) \<and>
   (falsy_uri (MONGODB_URI s) \<and> conn (cached s) = None \<and> promise (cached s) = None \<longrightarrow>
      calls (connectDB_001 mc) n s = (replicate n (Inl (ErrorInst missing_uri_message_001)), s)) \<and>
   (conn (cached s) = None \<and> promise (cached s) = None \<longrightarrow>
      fst (connectDB_000 mc s) = mc (length (connect_log s)) (MONGODB_URI s) \<and>
      connect_log (snd (connectDB_000 mc s)) =
        connect_log s @ [(MONGODB_URI s, \<lparr>bufferCommands = False\<rparr>)])"
proof (intro conjI impI)
  assume "falsy_uri (env_MONGODB_URI p)"
  then show "load_000 p = Inl (ErrorInst missing_uri_message_000)"
    by (simp add: load_000_def)
next
  show "\<exists>s. load_001 p = Inr s" by (simp add: load_001_def)
next
  assume "falsy_uri (MONGODB_URI s) \<and> conn (cached s) = None \<and> promise (cached s) = None"
  then have "connectDB_001 mc s = (Inl (ErrorInst missing_uri_message_001), s)"
    by (simp add: connectDB_001_def)
  then show "calls (connectDB_001 mc) n s =
      (replicate n (Inl (ErrorInst missing_uri_message_001)), s)"
    by (rule calls_fixed)
next
  assume "conn (cached s) = None \<and> promise (cached s) = None"
  with fresh_attempt_000 [of s mc]
  show "fst (connectDB_000 mc s) = mc (length (connect_log s)) (MONGODB_URI s)"
    and "connect_log (snd (connectDB_000 mc s)) =
        connect_log s @ [(MONGODB_URI s, \<lparr>bufferCommands = False\<rparr>)]"
    by simp_all
qed

text \<open>
  C2 as amended, in a fresh process without the variable: part_000 does not load;
  part_001 loads with an empty cache, and two calls of its \<open>connectDB\<close> both throw the
  configuration error with no connection attempt logged. The \<open>connectDB\<close> of part_000,
  run on that empty cache, makes a connection attempt without a URI.
\<close>

theorem missing_uri_check_witness:
  "load_000 (fresh_process None) = Inl (ErrorInst missing_uri_message_000) \<and>
   load_001 (fresh_process None) = Inr (empty_cache_state None) \<and>
   calls (connectDB_001 always_up) 2 (empty_cache_state None) =
     ([Inl (ErrorInst missing_uri_message_001), Inl (ErrorInst missing_uri_message_001)],
      empty_cache_state None) \<and>
   connect_log (empty_cache_state None) = [] \<and>
   fst (connectDB_000 always_up (empty_cache_state None)) = Inr (Mongoose 0) \<and>
   connect_log (snd (connectDB_000 always_up (empty_cache_state None))) =
     [(None, \<lparr>bufferCommands = False\<rparr>)]"
  using missing_uri_check [of "fresh_process None" "empty_cache_state None" always_up 2]
  by (simp add: fresh_process_def empty_cache_state_def falsy_uri_def load_001_def
      initial_cached_def numeral_2_eq_2 always_up_def)

text \<open>
  C2 as stated fails on part_000: in a fresh process without the variable the check fires
  when the module is loaded, before any call of \<open>connectDB\<close> can be made.
\<close>

theorem missing_uri_at_module_load_000:
  "load_000 (fresh_process None) =
     Inl (ErrorInst ''Please define the MONGODB_URI environment variable inside .env.local'')"
  by (simp add: load_000_def fresh_process_def falsy_uri_def missing_uri_message_000_def)

lemma connectDB_000_failed:
  "connectDB_000 mc s = (Inl e, s1) \<Longrightarrow>
     conn (cached s1) = None \<and> promise (cached s1) = None \<and>
     MONGODB_URI s1 = MONGODB_URI s"
  by (auto simp: connectDB_000_def await_promise_def start_connect_def Let_def
      split: option.splits sum.splits)

lemma connectDB_001_failed:
  "connectDB_001 mc s = (Inl e, s1) \<Longrightarrow>
     conn (cached s1) = None \<and> promise (cached s1) = None \<and>
     MONGODB_URI s1 = MONGODB_URI s"
  by (auto simp: connectDB_001_def await_promise_def start_connect_def Let_def
      split: option.splits sum.splits if_splits)

lemma fresh_attempt_001:
  "conn (cached s) = None \<Longrightarrow> promise (cached s) = None \<Longrightarrow> \<not> falsy_uri (MONGODB_URI s) \<Longrightarrow>
   fst (connectDB_001 mc s) = mc (length (connect_log s)) (MONGODB_URI s) \<and>
   connect_log (snd (connectDB_001 mc s)) =
     connect_log s @ [(MONGODB_URI s, \<lparr>bufferCommands = False\<rparr>)]"
  by (auto simp: connectDB_001_def await_promise_def start_connect_def Let_def
      split: option.splits sum.splits)

text \<open>
  C8. Whenever a call of \<open>connectDB\<close> throws, the state it leaves has no pending attempt.
  The next call therefore does not await the failed promise again: it calls
  \<^verbatim>\<open>mongoose.connect\<close> once more (the log grows by one entry, with buffering disabled)
  and its result is what that new attempt settles to. In part_000 this holds as it
  stands; in part_001 the new attempt is made when the URI is configured, which it is
  whenever the failed attempt was started by this module instance.
\<close>

theorem failed_attempt_is_cleared:
  "(connectDB_000 mc s = (Inl e, s1) \<longrightarrow>
      promise (cached s1) = None \<and>
      fst (connectDB_000 mc s1) = mc (length (connect_log s1)) (MONGODB_URI s1) \<and>
      connect_log (snd (connectDB_000 mc s1)) =
        connect_log s1 @ [(MONGODB_URI s1, \<lparr>bufferCommands = False\<rparr>)]) \<and>
   (connectDB_001 mc s = (Inl e, s1) \<longrightarrow>
      promise (cached s1) = None \<and>
      (\<not> falsy_uri (MONGODB_URI s) \<longrightarrow>
         fst (connectDB_001 mc s1) = mc (length (connect_log s1)) (MONGODB_URI s1) \<and>
         connect_log (snd (connectDB_001 mc s1)) =
           connect_log s1 @ [(MONGODB_URI s1, \<lparr>bufferCommands = False\<rparr>)]))"
proof (intro conjI impI)
  assume a: "connectDB_000 mc s = (Inl e, s1)"
  from connectDB_000_failed [OF a] show "promise (cached s1) = None" by simp
  from connectDB_000_failed [OF a] fresh_attempt_000 [of s1 mc]
  show "fst (connectDB_000 mc s1) = mc (length (connect_log s1)) (MONGODB_URI s1)"
    and "connect_log (snd (connectDB_000 mc s1)) =
        connect_log s1 @ [(MONGODB_URI s1, \<lparr>bufferCommands = False\<rparr>)]"
    by simp_all
next
  assume a: "connectDB_001 mc s = (Inl e, s1)"
  from connectDB_001_failed [OF a] show "promise (cached s1) = None" by simp
  assume u: "\<not> falsy_uri (MONGODB_URI s)"
  from connectDB_001_failed [OF a] u fresh_attempt_001 [of s1 mc]
  show "fst (connectDB_001 mc s1) = mc (length (connect_log s1)) (MONGODB_URI s1)"
    and "connect_log (snd (connectDB_001 mc s1)) =
        connect_log s1 @ [(MONGODB_URI s1, \<lparr>bufferCommands = False\<rparr>)]"
    by simp_all
qed

text \<open>
  C8, with a driver that refuses the first attempt and accepts the second: the first call
  of either variant throws and leaves no pending attempt; the second call makes a second
  attempt and returns its handle.
\<close>

theorem failed_attempt_is_cleared_witness:
  "connectDB_000 down_then_up (empty_cache_state dev_uri) =
     (Inl (ErrorInst ''ECONNREFUSED''), refused_state) \<and>
   connectDB_001 down_then_up (empty_cache_state dev_uri) =
     (Inl (ErrorInst ''ECONNREFUSED''), refused_state) \<and>
   promise (cached refused_state) = None \<and>
   fst (connectDB_000 down_then_up refused_state) = Inr (Mongoose 1) \<and>
   fst (connectDB_001 down_then_up refused_state) = Inr (Mongoose 1) \<and>
   length (connect_log (snd (connectDB_000 down_then_up refused_state))) = 2 \<and>
   length (connect_log (snd (connectDB_001 down_then_up refused_state))) = 2"
  using failed_attempt_is_cleared
    [of down_then_up "empty_cache_state dev_uri" "ErrorInst ''ECONNREFUSED''" refused_state]
  by (simp add: refused_000 refused_001)
     (simp add: refused_state_def down_then_up_def empty_cache_state_def dev_uri_def
       falsy_uri_def)

section \<open>Properties of the POST handler\<close>

text \<open>
  On the entries of a form the built-in meets only pairs of a name and a value, so it
  returns the object built from them; on other iterables it throws.
\<close>

lemma AddEntries_pairs:
  "AddEntriesFromIterable E obj (map (\<lambda>(k, e). EntryArray k e) fd) =
     Inr (foldl (\<lambda>m (k, e). m(k \<mapsto> entry_value e)) obj fd)"
proof (induction fd arbitrary: obj)
  case Nil
  show ?case by simp
next
  case (Cons entry fd)
  obtain k e where entry: "entry = (k, e)" by (cases entry)
  show ?case by (simp add: entry Cons.IH)
qed

lemma fromEntries_formData:
  "Object_fromEntries E (formData_entries fd) =
     Inr (foldl (\<lambda>m (k, e). m(k \<mapsto> entry_value e)) Map.empty fd)"
  by (simp add: Object_fromEntries_def formData_entries_def AddEntries_pairs)

lemma fromEntries_primitive_item:
  "Object_fromEntries E (Iterator [EntryArray ''title'' (Text ''Launch''), NotAnObject]) =
     Inl (ErrorInst (type_error_message E ''Object.fromEntries: iterator value''))"
  by (simp add: Object_fromEntries_def)

text \<open>What the body of the try can return, and what it has done by then.\<close>

lemma persist_returns:
  "persist E event tags agenda u w = (Inr r, w1) \<Longrightarrow>
     \<exists>c. r = \<lparr>status = 201, body = MessageEvent ''Event created successfully'' c\<rparr>"
  by (auto simp: persist_def Event_create_def Let_def split: option.splits prod.splits sum.splits)

lemma POST_form_returns:
  "POST_form E fd w = (Inr r, w1) \<Longrightarrow>
     (falsy_entry (formData_get fd ''image'') \<and>
        r = \<lparr>status = 400, body = Message ''Image file is required''\<rparr> \<and> w1 = w) \<or>
     (\<not> falsy_entry (formData_get fd ''image'') \<and>
        (\<exists>c. r = \<lparr>status = 201, body = MessageEvent ''Event created successfully'' c\<rparr>))"
  by (auto simp: POST_form_def fromEntries_formData Let_def
      split: if_splits sum.splits prod.splits dest: persist_returns)

lemma POST_try_returns:
  "POST_try E req w = (Inr r, w1) \<Longrightarrow>
     r = \<lparr>status = 400, body = Message ''Image file is required''\<rparr> \<or>
     (\<exists>c. r = \<lparr>status = 201, body = MessageEvent ''Event created successfully'' c\<rparr>)"
  by (auto simp: POST_try_def split: prod.splits sum.splits dest: POST_form_returns)

lemma POST_cases:
  "fst (POST E req w) = \<lparr>status = 400, body = Message ''Image file is required''\<rparr> \<or>
   (\<exists>c. fst (POST E req w) =
      \<lparr>status = 201, body = MessageEvent ''Event created successfully'' c\<rparr>) \<or>
   (\<exists>m. fst (POST E req w) =
      \<lparr>status = 500, body = MessageError ''Event Creation Failed'' m\<rparr>)"
  by (auto simp: POST_def split: prod.splits sum.splits dest: POST_try_returns)

lemma POST_connected:
  "connectDB E (db w) = (Inr h, d) \<Longrightarrow> formData req = Inr fd \<Longrightarrow>
   POST_try E req w = POST_form E fd (w\<lparr>db := d\<rparr>)"
  by (simp add: POST_try_def)

text \<open>
  C9. The handler collects the form fields by \<^verbatim>\<open>Object.fromEntries\<close> over
  \<^verbatim>\<open>formData.entries()\<close>. The built-in throws on an item that is not an object and on
  an argument that cannot be iterated; the entries of a form are pairs of a name and a
  value, whatever the form, so on them it returns an object and never throws. The inner
  \<^verbatim>\<open>catch\<close> is therefore dead code: whatever the collaborators, the request and the
  state, the response of \<open>POST\<close> is never status 400 with the message
  "Invalid JSON data format", and no response at all carries that message.
\<close>

theorem fromEntries_catch_unreachable:
  "(\<exists>event. Object_fromEntries E (formData_entries fd) = Inr event) \<and>
   fst (POST E req w) \<noteq> \<lparr>status = 400, body = Message ''Invalid JSON data format''\<rparr> \<and>
   body (fst (POST E req w)) \<noteq> Message ''Invalid JSON data format''"
proof (intro conjI)
  show "\<exists>event. Object_fromEntries E (formData_entries fd) = Inr event"
    by (simp add: fromEntries_formData)
next
  from POST_cases [of E req w]
  show "fst (POST E req w) \<noteq> \<lparr>status = 400, body = Message ''Invalid JSON data format''\<rparr>"
    by auto
next
  from POST_cases [of E req w]
  show "body (fst (POST E req w)) \<noteq> Message ''Invalid JSON data format''"
    by auto
qed

text \<open>
  C1, the code at the failing input. The form holds an image file and the field \<open>tags\<close>
  with the text \<^verbatim>\<open>not json\<close>; the database is up. \<^verbatim>\<open>JSON.parse\<close> throws outside the
  inner \<^verbatim>\<open>try\<close>, the outer \<^verbatim>\<open>catch\<close> answers: status 500, "Event Creation Failed",
  with the message of the syntax error, and not the documented status 400 with
  "Invalid JSON data format". Nothing is uploaded and nothing is stored.
\<close>

theorem POST_malformed_tags_is_500:
  "POST services_up
     (Request (Inr [(''title'', Text ''Launch''), (''image'', Upload poster),
                    (''tags'', Text ''not json''), (''agenda'', Text ''[\"x\"]'')]))
     world0 =
   (\<lparr>status = 500, body = MessageError ''Event Creation Failed'' ''Unexpected token in JSON''\<rparr>,
    world0\<lparr>db := connected_state\<rparr>)"
  by (simp add: POST_def POST_try_def POST_form_def services_up_def world0_def connect_up
      fromEntries_formData formData_get_def falsy_entry_def JSON_parse_def ToString_def
      parse_not_json error_text_def)

text \<open>
  With the connection acquired and the body read as a form: if the form has no entry named
  \<open>image\<close>, or its first such entry is the empty string, \<open>POST\<close> returns status 400
  with "Image file is required", and the state differs from the one before only in the
  module state of the connection, so no upload was sent and no event stored.
\<close>

lemma absent_image_is_400:
  assumes "connectDB E (db w) = (Inr h, d)" and "formData req = Inr fd"
    and "falsy_entry (formData_get fd ''image'')"
  shows "POST E req w =
     (\<lparr>status = 400, body = Message ''Image file is required''\<rparr>, w\<lparr>db := d\<rparr>)"
  using assms(3)
  by (simp add: POST_def POST_connected [OF assms(1,2)] POST_form_def fromEntries_formData)

text \<open>
  C5, the code at the failing input. The form has no file field named \<open>image\<close>: its
  only \<open>image\<close> entry is the text field \<^verbatim>\<open>hello\<close>; the database is up. The handler
  tests only whether the entry is truthy, the text passes, and \<^verbatim>\<open>file.arrayBuffer()\<close>
  throws a type error that the outer \<^verbatim>\<open>catch\<close> answers: status 500,
  "Event Creation Failed", with the message of the type error, and not the documented
  status 400 with "Image file is required". Nothing is uploaded and nothing is stored.
\<close>

theorem text_image_field_is_500:
  "POST services_up
     (Request (Inr [(''image'', Text ''hello''), (''tags'', Text ''[]''),
                    (''agenda'', Text ''[]'')]))
     world0 =
   (\<lparr>status = 500,
     body = MessageError ''Event Creation Failed'' ''file.arrayBuffer is not a function''\<rparr>,
    world0\<lparr>db := connected_state\<rparr>)"
  by (simp add: POST_def POST_try_def POST_form_def services_up_def world0_def connect_up
      fromEntries_formData formData_get_def falsy_entry_def JSON_parse_def ToString_def
      parse_empty_array arrayBuffer_def error_text_def)

lemma POST_uploading:
  assumes "connectDB E (db w) = (Inr h, d)" and "formData req = Inr fd"
    and "formData_get fd ''image'' = Some (Upload f)"
    and "JSON_parse E (formData_get fd ''tags'') = Inr tags"
    and "JSON_parse E (formData_get fd ''agenda'') = Inr agenda"
    and "Object_fromEntries E (formData_entries fd) = Inr event"
  shows "POST_try E req w =
     (case upload E (file_bytes f) (w\<lparr>db := d\<rparr>) of
        (Inl e, w1) \<Rightarrow> (Inl e, w1)
      | (Inr uploadResult, w1) \<Rightarrow> persist E event tags agenda uploadResult w1)"
  using assms by (simp add: POST_try_def POST_form_def falsy_entry_def arrayBuffer_def)

lemma POST_created:
  assumes "connectDB E (db w) = (Inr h, d)" and "formData req = Inr fd"
    and "formData_get fd ''image'' = Some (Upload f)"
    and "JSON_parse E (formData_get fd ''tags'') = Inr tags"
    and "JSON_parse E (formData_get fd ''agenda'') = Inr agenda"
    and "Object_fromEntries E (formData_entries fd) = Inr event"
    and "upload_stream E image_options (file_bytes f) = (None, Some r)"
    and "\<forall>doc. create_error E doc = None"
    and "createdEvent =
           \<lparr>attributes = (event(''image'' \<mapsto> VString (secure_url r)))
                           (''tags'' \<mapsto> VJson tags, ''agenda'' \<mapsto> VJson agenda),
            createdAt = now E\<rparr>"
  shows "POST E req w =
     (\<lparr>status = 201, body = MessageEvent ''Event created successfully'' createdEvent\<rparr>,
      w\<lparr>db := d, uploads := uploads w @ [(image_options, file_bytes f)],
        events := events w @ [createdEvent]\<rparr>)"
  using assms(7-9)
  by (simp add: POST_def POST_uploading [OF assms(1-6)] upload_def persist_def
      Event_create_def Let_def image_options_def)

lemma JSON_parse_missing: "JSON_parse E None = Inr JNull"
  by (simp add: JSON_parse_def ToString_def parse_null)

lemma POST_file_not_400:
  assumes "formData req = Inr fd" and "formData_get fd ''image'' = Some (Upload f)"
  shows "status (fst (POST E req w)) \<noteq> 400"
proof -
  have truthy: "\<not> falsy_entry (formData_get fd ''image'')"
    by (simp add: assms(2) falsy_entry_def)
  show ?thesis
  proof (cases "POST_try E req w")
    case (Pair res w1)
    show ?thesis
    proof (cases res)
      case (Inl e)
      with Pair show ?thesis by (simp add: POST_def)
    next
      case (Inr r)
      with Pair have "POST_try E req w = (Inr r, w1)" by simp
      then have "POST_form E fd (w\<lparr>db := snd (connectDB E (db w))\<rparr>) = (Inr r, w1)"
        using assms(1) by (auto simp: POST_try_def split: prod.splits sum.splits)
      from POST_form_returns [OF this] truthy have "status r = 201" by auto
      with Pair Inr show ?thesis by (simp add: POST_def)
    qed
  qed
qed

text \<open>
  C6. The connection is acquired, the form holds an image file, \<open>tags\<close> is the JSON
  text of ["a","b"] and \<open>agenda\<close> the JSON text of ["x"], the media service answers
  the upload with a result and no error, and the insert does not fail. Then \<open>POST\<close>
  returns status 201 with the created event, whose \<open>image\<close> is the secure URL of the
  upload result, whose \<open>tags\<close> is the array of the strings a and b and whose
  \<open>agenda\<close> is the array of the string x; one upload was sent, with the bytes of the
  file, and the created event was appended to the collection.
\<close>

theorem POST_creates_event:
  assumes "connectDB E (db w) = (Inr h, d)" and "formData req = Inr fd"
    and "formData_get fd ''image'' = Some (Upload f)"
    and "formData_get fd ''tags'' = Some (Text ''[\"a\",\"b\"]'')"
    and "formData_get fd ''agenda'' = Some (Text ''[\"x\"]'')"
    and "upload_stream E image_options (file_bytes f) = (None, Some r)"
    and "\<forall>doc. create_error E doc = None"
  shows "\<exists>createdEvent.
     POST E req w =
       (\<lparr>status = 201, body = MessageEvent ''Event created successfully'' createdEvent\<rparr>,
        w\<lparr>db := d, uploads := uploads w @ [(image_options, file_bytes f)],
          events := events w @ [createdEvent]\<rparr>) \<and>
     attributes createdEvent ''image'' = Some (VString (secure_url r)) \<and>
     attributes createdEvent ''tags'' =
       Some (VJson (JArray [JString (units ''a''), JString (units ''b'')])) \<and>
     attributes createdEvent ''agenda'' = Some (VJson (JArray [JString (units ''x'')]))"
proof -
  obtain event where ev: "Object_fromEntries E (formData_entries fd) = Inr event"
    by (auto simp: fromEntries_formData)
  have t: "JSON_parse E (formData_get fd ''tags'') =
      Inr (JArray [JString (units ''a''), JString (units ''b'')])"
    by (simp add: assms(4) JSON_parse_def ToString_def parse_a_b)
  have a: "JSON_parse E (formData_get fd ''agenda'') = Inr (JArray [JString (units ''x'')])"
    by (simp add: assms(5) JSON_parse_def ToString_def parse_x)
  from POST_created [OF assms(1-3) t a ev assms(6,7) refl]
  show ?thesis by simp
qed

text \<open>
  C6, for the form with a title, the poster file, the two JSON fields and all services up:
  status 201, and the created event carries the URL that the media service returned.
\<close>

theorem POST_creates_event_witness:
  "\<exists>createdEvent.
     POST services_up (Request (Inr launch_form)) world0 =
       (\<lparr>status = 201, body = MessageEvent ''Event created successfully'' createdEvent\<rparr>,
        world0\<lparr>db := connected_state,
          uploads := uploads world0 @ [(image_options, file_bytes poster)],
          events := events world0 @ [createdEvent]\<rparr>) \<and>
     attributes createdEvent ''image'' =
       Some (VString ''https://res.cloudinary.com/demo/image/upload/poster.png'') \<and>
     attributes createdEvent ''tags'' =
       Some (VJson (JArray [JString (units ''a''), JString (units ''b'')])) \<and>
     attributes createdEvent ''agenda'' = Some (VJson (JArray [JString (units ''x'')]))"
proof -
  have f: "formData (Request (Inr launch_form)) = Inr launch_form" by simp
  have i: "formData_get launch_form ''image'' = Some (Upload poster)"
    and t: "formData_get launch_form ''tags'' = Some (Text ''[\"a\",\"b\"]'')"
    and a: "formData_get launch_form ''agenda'' = Some (Text ''[\"x\"]'')"
    by (simp_all add: formData_get_def launch_form_def)
  from POST_creates_event [OF services_up_connect f i t a services_up_upload services_up_create]
  show ?thesis by (simp add: hosted_def)
qed

text \<open>
  C10. The form holds an image file and has no \<open>tags\<close> entry, or no \<open>agenda\<close>
  entry. Then, whatever else happens, the status of the response is not 400. The lookup of
  the missing field gives \<^verbatim>\<open>null\<close>, which \<^verbatim>\<open>JSON.parse\<close> reads as the text
  \<^verbatim>\<open>null\<close> and parses, without exception, to the JSON value null. When moreover the
  connection is acquired, the other field parses, the upload succeeds and the insert does
  not fail, the response is 201 and the event appended to the collection has the parsed
  values as \<open>tags\<close> and \<open>agenda\<close>, hence null for the missing field.
\<close>

theorem missing_field_is_null:
  assumes "formData req = Inr fd" and "formData_get fd ''image'' = Some (Upload f)"
    and "formData_get fd ''tags'' = None \<or> formData_get fd ''agenda'' = None"
  shows "status (fst (POST E req w)) \<noteq> 400 \<and>
     (formData_get fd ''tags'' = None \<longrightarrow>
        JSON_parse E (formData_get fd ''tags'') = Inr JNull) \<and>
     (formData_get fd ''agenda'' = None \<longrightarrow>
        JSON_parse E (formData_get fd ''agenda'') = Inr JNull) \<and>
     (connectDB E (db w) = (Inr h, d) \<and>
      JSON_parse E (formData_get fd ''tags'') = Inr tags \<and>
      JSON_parse E (formData_get fd ''agenda'') = Inr agenda \<and>
      upload_stream E image_options (file_bytes f) = (None, Some r) \<and>
      (\<forall>doc. create_error E doc = None) \<longrightarrow>
        (\<exists>createdEvent.
           POST E req w =
             (\<lparr>status = 201, body = MessageEvent ''Event created successfully'' createdEvent\<rparr>,
              w\<lparr>db := d, uploads := uploads w @ [(image_options, file_bytes f)],
                events := events w @ [createdEvent]\<rparr>) \<and>
           attributes createdEvent ''tags'' = Some (VJson tags) \<and>
           attributes createdEvent ''agenda'' = Some (VJson agenda) \<and>
           (formData_get fd ''tags'' = None \<longrightarrow> tags = JNull) \<and>
           (formData_get fd ''agenda'' = None \<longrightarrow> agenda = JNull)))"
proof (intro conjI impI)
  show "status (fst (POST E req w)) \<noteq> 400"
    by (rule POST_file_not_400 [OF assms(1,2)])
next
  assume "formData_get fd ''tags'' = None"
  then show "JSON_parse E (formData_get fd ''tags'') = Inr JNull"
    by (simp add: JSON_parse_missing)
next
  assume "formData_get fd ''agenda'' = None"
  then show "JSON_parse E (formData_get fd ''agenda'') = Inr JNull"
    by (simp add: JSON_parse_missing)
next
  assume h: "connectDB E (db w) = (Inr h, d) \<and>
      JSON_parse E (formData_get fd ''tags'') = Inr tags \<and>
      JSON_parse E (formData_get fd ''agenda'') = Inr agenda \<and>
      upload_stream E image_options (file_bytes f) = (None, Some r) \<and>
      (\<forall>doc. create_error E doc = None)"
  obtain event where ev: "Object_fromEntries E (formData_entries fd) = Inr event"
    by (auto simp: fromEntries_formData)
  have nt: "formData_get fd ''tags'' = None \<longrightarrow> tags = JNull"
    using h by (auto simp: JSON_parse_missing)
  have na: "formData_get fd ''agenda'' = None \<longrightarrow> agenda = JNull"
    using h by (auto simp: JSON_parse_missing)
  from h have c: "connectDB E (db w) = (Inr h, d)"
    and t: "JSON_parse E (formData_get fd ''tags'') = Inr tags"
    and a: "JSON_parse E (formData_get fd ''agenda'') = Inr agenda"
    and u: "upload_stream E image_options (file_bytes f) = (None, Some r)"
    and k: "\<forall>doc. create_error E doc = None"
    by simp_all
  from POST_created [OF c assms(1,2) t a ev u k refl] nt na
  show "\<exists>createdEvent.
           POST E req w =
             (\<lparr>status = 201, body = MessageEvent ''Event created successfully'' createdEvent\<rparr>,
              w\<lparr>db := d, uploads := uploads w @ [(image_options, file_bytes f)],
                events := events w @ [createdEvent]\<rparr>) \<and>
           attributes createdEvent ''tags'' = Some (VJson tags) \<and>
           attributes createdEvent ''agenda'' = Some (VJson agenda) \<and>
           (formData_get fd ''tags'' = None \<longrightarrow> tags = JNull) \<and>
           (formData_get fd ''agenda'' = None \<longrightarrow> agenda = JNull)"
    by simp
qed

text \<open>
  C10, for a form without \<open>tags\<close> and for a form without \<open>agenda\<close>, all services up:
  the missing field parses to null, the response is 201 and not 400, and the stored event
  has null in that field.
\<close>

theorem missing_field_is_null_witness:
  "status (fst (POST services_up (Request (Inr no_tags_form)) world0)) \<noteq> 400 \<and>
   JSON_parse services_up (formData_get no_tags_form ''tags'') = Inr JNull \<and>
   (\<exists>createdEvent.
      POST services_up (Request (Inr no_tags_form)) world0 =
        (\<lparr>status = 201, body = MessageEvent ''Event created successfully'' createdEvent\<rparr>,
         world0\<lparr>db := connected_state,
           uploads := uploads world0 @ [(image_options, file_bytes poster)],
           events := events world0 @ [createdEvent]\<rparr>) \<and>
      attributes createdEvent ''tags'' = Some (VJson JNull) \<and>
      attributes createdEvent ''agenda'' = Some (VJson (JArray [JString (units ''x'')]))) \<and>
   status (fst (POST services_up (Request (Inr no_agenda_form)) world0)) \<noteq> 400 \<and>
   JSON_parse services_up (formData_get no_agenda_form ''agenda'') = Inr JNull \<and>
   (\<exists>createdEvent.
      POST services_up (Request (Inr no_agenda_form)) world0 =
        (\<lparr>status = 201, body = MessageEvent ''Event created successfully'' createdEvent\<rparr>,
         world0\<lparr>db := connected_state,
           uploads := uploads world0 @ [(image_options, file_bytes poster)],
           events := events world0 @ [createdEvent]\<rparr>) \<and>
      attributes createdEvent ''tags'' =
        Some (VJson (JArray [JString (units ''a''), JString (units ''b'')])) \<and>
      attributes createdEvent ''agenda'' = Some (VJson JNull))"
proof -
  have f1: "formData (Request (Inr no_tags_form)) = Inr no_tags_form" by simp
  have f2: "formData (Request (Inr no_agenda_form)) = Inr no_agenda_form" by simp
  have g1: "formData_get no_tags_form ''image'' = Some (Upload poster)"
      "formData_get no_tags_form ''tags'' = None"
      "formData_get no_tags_form ''agenda'' = Some (Text ''[\"x\"]'')"
    by (simp_all add: formData_get_def no_tags_form_def)
  have g2: "formData_get no_agenda_form ''image'' = Some (Upload poster)"
      "formData_get no_agenda_form ''tags'' = Some (Text ''[\"a\",\"b\"]'')"
      "formData_get no_agenda_form ''agenda'' = None"
    by (simp_all add: formData_get_def no_agenda_form_def)
  have p1: "JSON_parse services_up (formData_get no_tags_form ''tags'') = Inr JNull"
      "JSON_parse services_up (formData_get no_tags_form ''agenda'') =
         Inr (JArray [JString (units ''x'')])"
    by (simp_all add: g1 JSON_parse_def ToString_def parse_null parse_x)
  have p2: "JSON_parse services_up (formData_get no_agenda_form ''tags'') =
         Inr (JArray [JString (units ''a''), JString (units ''b'')])"
      "JSON_parse services_up (formData_get no_agenda_form ''agenda'') = Inr JNull"
    by (simp_all add: g2 JSON_parse_def ToString_def parse_null parse_a_b)
  have o1: "formData_get no_tags_form ''tags'' = None \<or>
      formData_get no_tags_form ''agenda'' = None"
    by (simp add: g1)
  have o2: "formData_get no_agenda_form ''tags'' = None \<or>
      formData_get no_agenda_form ''agenda'' = None"
    by (simp add: g2)
  note m1 = missing_field_is_null [OF f1 g1(1) o1, of services_up world0 "Mongoose 0"
         connected_state JNull "JArray [JString (units ''x'')]" hosted]
  note m2 = missing_field_is_null [OF f2 g2(1) o2, of services_up world0 "Mongoose 0"
         connected_state "JArray [JString (units ''a''), JString (units ''b'')]" JNull hosted]
  from m1 have s1: "status (fst (POST services_up (Request (Inr no_tags_form)) world0)) \<noteq> 400"
    by (rule conjunct1)
  from m2 have s2: "status (fst (POST services_up (Request (Inr no_agenda_form)) world0)) \<noteq> 400"
    by (rule conjunct1)
  from m1 services_up_connect services_up_upload services_up_create p1
  have e1: "\<exists>createdEvent.
      POST services_up (Request (Inr no_tags_form)) world0 =
        (\<lparr>status = 201, body = MessageEvent ''Event created successfully'' createdEvent\<rparr>,
         world0\<lparr>db := connected_state,
           uploads := uploads world0 @ [(image_options, file_bytes poster)],
           events := events world0 @ [createdEvent]\<rparr>) \<and>
      attributes createdEvent ''tags'' = Some (VJson JNull) \<and>
      attributes createdEvent ''agenda'' = Some (VJson (JArray [JString (units ''x'')]))"
    by blast
  from m2 services_up_connect services_up_upload services_up_create p2
  have e2: "\<exists>createdEvent.
      POST services_up (Request (Inr no_agenda_form)) world0 =
        (\<lparr>status = 201, body = MessageEvent ''Event created successfully'' createdEvent\<rparr>,
         world0\<lparr>db := connected_state,
           uploads := uploads world0 @ [(image_options, file_bytes poster)],
           events := events world0 @ [createdEvent]\<rparr>) \<and>
      attributes createdEvent ''tags'' =
        Some (VJson (JArray [JString (units ''a''), JString (units ''b'')])) \<and>
      attributes createdEvent ''agenda'' = Some (VJson JNull)"
    by blast
  from s1 e1 s2 e2 p1(1) p2(2) show ?thesis by blast
qed

text \<open>
  C4, as amended. The connection is acquired, the form holds an image file, both JSON
  fields parse, and the media service calls back with an error. Then \<open>POST\<close> returns
  status 500 with the message "Event Creation Failed"; its \<open>error\<close> is the message of
  the failure when the failure is an instance of \<^verbatim>\<open>Error\<close>, and the text "Unknown"
  otherwise. The upload was attempted once, and the collection of events is as before: no
  insert happened.
\<close>

theorem upload_failure_is_500:
  assumes "connectDB E (db w) = (Inr h, d)" and "formData req = Inr fd"
    and "formData_get fd ''image'' = Some (Upload f)"
    and "JSON_parse E (formData_get fd ''tags'') = Inr tags"
    and "JSON_parse E (formData_get fd ''agenda'') = Inr agenda"
    and "upload_stream E image_options (file_bytes f) = (Some e, results)"
  shows "POST E req w =
     (\<lparr>status = 500,
       body = MessageError ''Event Creation Failed''
                (case e of ErrorInst m \<Rightarrow> m | PlainValue v \<Rightarrow> ''Unknown'')\<rparr>,
      w\<lparr>db := d, uploads := uploads w @ [(image_options, file_bytes f)]\<rparr>) \<and>
     events (snd (POST E req w)) = events w"
proof -
  obtain event where ev: "Object_fromEntries E (formData_entries fd) = Inr event"
    by (auto simp: fromEntries_formData)
  have "POST E req w =
     (\<lparr>status = 500,
       body = MessageError ''Event Creation Failed''
                (case e of ErrorInst m \<Rightarrow> m | PlainValue v \<Rightarrow> ''Unknown'')\<rparr>,
      w\<lparr>db := d, uploads := uploads w @ [(image_options, file_bytes f)]\<rparr>)"
    using assms(6)
    by (simp add: POST_def POST_uploading [OF assms(1-5) ev] upload_def Let_def
        image_options_def error_text_def)
  then show ?thesis by simp
qed

text \<open>
  C4 as amended, with a media service that rejects with an \<^verbatim>\<open>Error\<close>: the response
  carries its message, and the collection stays empty.
\<close>

theorem upload_failure_is_500_witness:
  "POST upload_times_out (Request (Inr launch_form)) world0 =
     (\<lparr>status = 500, body = MessageError ''Event Creation Failed'' ''Upload timed out''\<rparr>,
      world0\<lparr>db := connected_state,
        uploads := uploads world0 @ [(image_options, file_bytes poster)]\<rparr>) \<and>
   events (snd (POST upload_times_out (Request (Inr launch_form)) world0)) = events world0"
proof -
  have c: "connectDB upload_times_out (db world0) = (Inr (Mongoose 0), connected_state)"
    using services_up_connect by (simp add: upload_times_out_def)
  have f: "formData (Request (Inr launch_form)) = Inr launch_form" by simp
  have i: "formData_get launch_form ''image'' = Some (Upload poster)"
    by (simp add: formData_get_def launch_form_def)
  have t: "JSON_parse upload_times_out (formData_get launch_form ''tags'') =
      Inr (JArray [JString (units ''a''), JString (units ''b'')])"
    by (simp add: formData_get_def launch_form_def JSON_parse_def ToString_def parse_a_b)
  have a: "JSON_parse upload_times_out (formData_get launch_form ''agenda'') =
      Inr (JArray [JString (units ''x'')])"
    by (simp add: formData_get_def launch_form_def JSON_parse_def ToString_def parse_x)
  have u: "upload_stream upload_times_out image_options (file_bytes poster) =
      (Some (ErrorInst ''Upload timed out''), None)"
    by (simp add: upload_times_out_def)
  from upload_failure_is_500 [OF c f i t a u] show ?thesis by simp
qed

text \<open>
  C4 as stated fails: the media service rejects with a plain object that has a
  \<open>message\<close> but is no instance of \<^verbatim>\<open>Error\<close>, and the response carries the text
  "Unknown" instead of that message.
\<close>

theorem upload_rejection_without_message:
  "POST upload_rejects_plain (Request (Inr launch_form)) world0 =
     (\<lparr>status = 500, body = MessageError ''Event Creation Failed'' ''Unknown''\<rparr>,
      world0\<lparr>db := connected_state,
        uploads := [(image_options, file_bytes poster)]\<rparr>)"
  by (simp add: POST_def POST_try_def POST_form_def upload_rejects_plain_def services_up_def
      world0_def connect_up fromEntries_formData formData_get_def launch_form_def
      falsy_entry_def JSON_parse_def ToString_def parse_a_b parse_x arrayBuffer_def
      upload_def Let_def image_options_def error_text_def)

section \<open>Properties of the GET handler\<close>

lemma newest_first_sorted:
  "sorted_wrt (\<lambda>a b. createdAt b \<le> createdAt a) (rev (sort_key createdAt xs))"
proof -
  have "sorted (map createdAt (sort_key createdAt xs))" by (rule sorted_sort_key)
  then show ?thesis by (simp add: sorted_wrt_rev sorted_map)
qed

lemma listing_world3:
  "GET services_up world3 =
     (\<lparr>status = 200,
       body = MessageEvents ''Events fetched successfully''
         [\<lparr>attributes = [''title'' \<mapsto> VString ''Summit''], createdAt = 30\<rparr>,
          \<lparr>attributes = [''title'' \<mapsto> VString ''Meetup''], createdAt = 20\<rparr>,
          \<lparr>attributes = [''title'' \<mapsto> VString ''Hackday''], createdAt = 10\<rparr>]\<rparr>,
      world3\<lparr>db := connected_state\<rparr>)"
  by (simp add: GET_def GET_try_def Event_find_sort_def services_up_def world3_def connect_up
      sort_key_def)

text \<open>
  C7. \<open>GET\<close> first acquires the connection. When that succeeds and the query does not
  fail, the response is status 200 with a list that holds exactly the records of the
  collection, each as often as it is stored, in non-increasing order of creation time.
  When acquiring the connection throws, or the query throws, the response is status 500
  with "Event fetching failed" and the thrown value itself as \<open>error\<close>. In each case the
  collection is unchanged.
\<close>

theorem GET_lists_newest_first:
  "(connectDB E (db w) = (Inr h, d) \<and> find_error E = None \<longrightarrow>
      (\<exists>evs. GET E w =
          (\<lparr>status = 200, body = MessageEvents ''Events fetched successfully'' evs\<rparr>,
           w\<lparr>db := d\<rparr>) \<and>
        mset evs = mset (events w) \<and>
        sorted_wrt (\<lambda>a b. createdAt b \<le> createdAt a) evs)) \<and>
   (connectDB E (db w) = (Inl e, d) \<longrightarrow>
      GET E w =
        (\<lparr>status = 500, body = MessageRawError ''Event fetching failed'' e\<rparr>, w\<lparr>db := d\<rparr>)) \<and>
   (connectDB E (db w) = (Inr h, d) \<and> find_error E = Some e \<longrightarrow>
      GET E w =
        (\<lparr>status = 500, body = MessageRawError ''Event fetching failed'' e\<rparr>, w\<lparr>db := d\<rparr>))"
proof (intro conjI impI)
  assume "connectDB E (db w) = (Inr h, d) \<and> find_error E = None"
  then have "GET E w =
      (\<lparr>status = 200,
        body = MessageEvents ''Events fetched successfully''
                 (rev (sort_key createdAt (events w)))\<rparr>,
       w\<lparr>db := d\<rparr>)"
    by (simp add: GET_def GET_try_def Event_find_sort_def)
  moreover have "mset (rev (sort_key createdAt (events w))) = mset (events w)"
    by simp
  ultimately show "\<exists>evs. GET E w =
          (\<lparr>status = 200, body = MessageEvents ''Events fetched successfully'' evs\<rparr>,
           w\<lparr>db := d\<rparr>) \<and>
        mset evs = mset (events w) \<and>
        sorted_wrt (\<lambda>a b. createdAt b \<le> createdAt a) evs"
    using newest_first_sorted [of "events w"] by blast
next
  assume "connectDB E (db w) = (Inl e, d)"
  then show "GET E w =
        (\<lparr>status = 500, body = MessageRawError ''Event fetching failed'' e\<rparr>, w\<lparr>db := d\<rparr>)"
    by (simp add: GET_def GET_try_def)
next
  assume "connectDB E (db w) = (Inr h, d) \<and> find_error E = Some e"
  then show "GET E w =
        (\<lparr>status = 500, body = MessageRawError ''Event fetching failed'' e\<rparr>, w\<lparr>db := d\<rparr>)"
    by (simp add: GET_def GET_try_def Event_find_sort_def)
qed

text \<open>
  C7, on the collection of three events: with all services up the listing is Summit (30),
  Meetup (20), Hackday (10); with the database refusing the connection, and with the query
  failing, the response is the 500 with the thrown value.
\<close>

theorem GET_lists_newest_first_witness:
  "connectDB services_up (db world3) = (Inr (Mongoose 0), connected_state) \<and>
   find_error services_up = None \<and>
   GET services_up world3 =
     (\<lparr>status = 200,
       body = MessageEvents ''Events fetched successfully''
         [\<lparr>attributes = [''title'' \<mapsto> VString ''Summit''], createdAt = 30\<rparr>,
          \<lparr>attributes = [''title'' \<mapsto> VString ''Meetup''], createdAt = 20\<rparr>,
          \<lparr>attributes = [''title'' \<mapsto> VString ''Hackday''], createdAt = 10\<rparr>]\<rparr>,
      world3\<lparr>db := connected_state\<rparr>) \<and>
   connectDB database_down (db world3) = (Inl (ErrorInst ''ECONNREFUSED''), refused_state) \<and>
   GET database_down world3 =
     (\<lparr>status = 500,
       body = MessageRawError ''Event fetching failed'' (ErrorInst ''ECONNREFUSED'')\<rparr>,
      world3\<lparr>db := refused_state\<rparr>) \<and>
   find_error query_fails = Some (PlainValue ''cursor closed'') \<and>
   GET query_fails world3 =
     (\<lparr>status = 500,
       body = MessageRawError ''Event fetching failed'' (PlainValue ''cursor closed'')\<rparr>,
      world3\<lparr>db := connected_state\<rparr>)"
proof -
  have c: "connectDB services_up (db world3) = (Inr (Mongoose 0), connected_state)"
    by (simp add: services_up_def world3_def connect_up)
  have r: "connectDB database_down (db world3) =
     (Inl (ErrorInst ''ECONNREFUSED''), refused_state)"
    by (simp add: database_down_def world3_def refused_001)
  have c': "connectDB query_fails (db world3) = (Inr (Mongoose 0), connected_state)"
    using c by (simp add: query_fails_def)
  have q: "find_error query_fails = Some (PlainValue ''cursor closed'')"
    by (simp add: query_fails_def)
  have n: "find_error services_up = None" by (simp add: services_up_def)
  from GET_lists_newest_first
         [of database_down world3 "Mongoose 0" refused_state "ErrorInst ''ECONNREFUSED''"]
       GET_lists_newest_first
         [of query_fails world3 "Mongoose 0" connected_state "PlainValue ''cursor closed''"]
       c r c' q n listing_world3
  show ?thesis by simp
qed

end
